theory Spec2Isabelle
  imports Complex_Main
begin

section \<open>GHOST: geometry utilities and phantom calibration\<close>

text \<open>
  A shallow embedding of \<^verbatim>\<open>src/ghost/utils.py\<close> and \<^verbatim>\<open>src/ghost/calib.py\<close>.
  In the mask and point-set functions numpy's float64 values are modelled as real
  numbers, every operation exact. The parameter extraction of \<^verbatim>\<open>get_ellipse_params\<close>
  takes the float64 arithmetic as a parameter and models the IEEE special values
  (infinities, NaN, the sign of a zero) where the source can produce or read them. Every
  exception the source can raise is a value of the type \<open>exn\<close>; a function that can raise
  returns \<open>exn + 'a\<close>.
\<close>

subsection \<open>Python values and exceptions\<close>

text \<open>Dictionary keys and interpolated values: a number or a string. Python compares
  \<^verbatim>\<open>3 == 3.0\<close> as equal, so both are \<open>Num 3\<close>.\<close>

datatype pyval = Num real | Str string

text \<open>The argument of a \<^verbatim>\<open>KeyError\<close>: the missing label (pandas, dict), or the three
  values interpolated into the message of \<^verbatim>\<open>Calibration._get_vals\<close>,
  \<^verbatim>\<open>f'Cannot find sheet for {mimics} at {B0}T. Available sheets are {self.__sheets.keys()}'\<close>.\<close>

datatype key_error_arg =
  MissingKey pyval
  | CannotFindSheet pyval pyval "pyval list"

datatype exn =
  ValueError
  | TypeError
  | IndexError
  | KeyError key_error_arg
  | UnboundLocalError
  | AttributeError
  | LinAlgError

text \<open>Python's built-in hierarchy: \<^verbatim>\<open>KeyError\<close> and \<^verbatim>\<open>IndexError\<close> derive from
  \<^verbatim>\<open>LookupError\<close>; \<^verbatim>\<open>UnboundLocalError\<close> derives from \<^verbatim>\<open>NameError\<close>. The exceptions
  Python raises for an argument of a wrong value or type are \<^verbatim>\<open>ValueError\<close> and
  \<^verbatim>\<open>TypeError\<close>.\<close>

fun is_LookupError :: "exn \<Rightarrow> bool" where
  "is_LookupError (KeyError _) = True"
| "is_LookupError IndexError = True"
| "is_LookupError _ = False"

fun is_InvalidArgument :: "exn \<Rightarrow> bool" where
  "is_InvalidArgument ValueError = True"
| "is_InvalidArgument TypeError = True"
| "is_InvalidArgument _ = False"

subsection \<open>numpy: two-dimensional arrays, arange, linspace, meshgrid\<close>

text \<open>A two-dimensional array carries its shape, so that an array with no row still has
  a column count, as in numpy.\<close>

datatype 'a array2 = Array2 (shape: "nat \<times> nat") (rows: "'a list list")

definition zeros :: "nat \<times> nat \<Rightarrow> real array2" where
  "zeros shp = Array2 shp (replicate (fst shp) (replicate (snd shp) 0))"

definition map_array2 :: "('a \<Rightarrow> 'b) \<Rightarrow> 'a array2 \<Rightarrow> 'b array2" where
  "map_array2 f a = Array2 (shape a) (map (map f) (rows a))"

text \<open>Elementwise combination of two arrays of the same shape (the only case the source
  uses: both come from one \<^verbatim>\<open>meshgrid\<close>).\<close>

definition map2_array2 :: "('a \<Rightarrow> 'b \<Rightarrow> 'c) \<Rightarrow> 'a array2 \<Rightarrow> 'b array2 \<Rightarrow> 'c array2" where
  "map2_array2 f a b = Array2 (shape a) (map2 (map2 f) (rows a) (rows b))"

text \<open>\<^verbatim>\<open>np.arange(lo, hi)\<close> on integers: \<open>lo, lo+1, ..., hi-1\<close>.\<close>

definition arange :: "int \<Rightarrow> int \<Rightarrow> int list" where
  "arange lo hi = [lo..hi - 1]"

text \<open>\<^verbatim>\<open>np.meshgrid(xs, ys)\<close> with the default \<^verbatim>\<open>indexing='xy'\<close>: both results have shape
  \<open>(len ys, len xs)\<close>; \<open>X[i][j] = xs[j]\<close> and \<open>Y[i][j] = ys[i]\<close>.\<close>

definition meshgrid :: "'a list \<Rightarrow> 'a list \<Rightarrow> 'a array2 \<times> 'a array2" where
  "meshgrid xs ys =
     (Array2 (length ys, length xs) (replicate (length ys) xs),
      Array2 (length ys, length xs) (map (\<lambda>y. replicate (length xs) y) ys))"

text \<open>\<^verbatim>\<open>arr[mask] = v\<close> with a boolean mask of the array's dimension: numpy raises
  \<^verbatim>\<open>IndexError\<close> (boolean index did not match indexed array) unless the shapes agree.\<close>

definition mask_assign :: "'a array2 \<Rightarrow> bool array2 \<Rightarrow> 'a \<Rightarrow> exn + 'a array2" where
  "mask_assign arr bmask v =
     (if shape bmask \<noteq> shape arr then Inl IndexError
      else Inr (map2_array2 (\<lambda>a m. if m then v else a) arr bmask))"

text \<open>\<^verbatim>\<open>np.linspace(start, stop, num)\<close> with the default \<^verbatim>\<open>endpoint=True\<close>: \<open>num\<close>
  evenly spaced samples over the closed interval, the last one \<open>stop\<close> itself; a single
  sample is \<open>start\<close>.\<close>

definition linspace :: "real \<Rightarrow> real \<Rightarrow> nat \<Rightarrow> real list" where
  "linspace start stop num =
     (if num = 1 then [start]
      else map (\<lambda>k. start + real k * ((stop - start) / real (num - 1))) [0..<num])"

subsection \<open>Shape masks\<close>

text \<open>\<^verbatim>\<open>make_circle(img_shape, radius, center)\<close>, utils.py lines 63-81. Python's
  \<^verbatim>\<open>-nx//2\<close> is \<open>(-nx) div 2\<close>, rounding down.\<close>

definition make_circle :: "nat \<times> nat \<Rightarrow> real \<Rightarrow> real \<times> real \<Rightarrow> exn + real array2" where
  "make_circle img_shape radius center =
     (let (nx, ny) = img_shape;
          (X, Y) = meshgrid
             (map (\<lambda>i. real_of_int i + fst center) (arange (- int nx div 2) (int nx div 2)))
             (map (\<lambda>j. real_of_int j + snd center) (arange (- int ny div 2) (int ny div 2)));
          D = map2_array2 (\<lambda>x y. sqrt (x\<^sup>2 + y\<^sup>2)) X Y;
          circle = zeros img_shape
      in mask_assign circle (map_array2 (\<lambda>d. d < radius) D) 1)"

text \<open>The number of 1-valued cells of a mask.\<close>

definition count_ones :: "real array2 \<Rightarrow> nat" where
  "count_ones m = length (filter (\<lambda>v. v = 1) (concat (rows m)))"

subsection \<open>Point sets: gen\_circle, transform\_points, get\_ellipse\<close>

text \<open>The pandas DataFrame of points, columns \<^verbatim>\<open>x\<close>, \<^verbatim>\<open>y\<close>, \<^verbatim>\<open>z\<close> over the default
  index \<open>0, 1, ...\<close>: the list of its rows. \<^verbatim>\<open>DataFrame.from_dict\<close> raises
  \<^verbatim>\<open>ValueError\<close> when the column lists differ in length.\<close>

type_synonym points_df = "(real \<times> real \<times> real) list"

definition from_dict :: "real list \<Rightarrow> real list \<Rightarrow> real list \<Rightarrow> exn + points_df" where
  "from_dict xs ys zs =
     (if length xs = length ys \<and> length ys = length zs then Inr (zip xs (zip ys zs))
      else Inl ValueError)"

definition col_x :: "points_df \<Rightarrow> real list" where
  "col_x df = map (\<lambda>(x, y, z). x) df"

definition col_y :: "points_df \<Rightarrow> real list" where
  "col_y df = map (\<lambda>(x, y, z). y) df"

definition col_z :: "points_df \<Rightarrow> real list" where
  "col_z df = map (\<lambda>(x, y, z). z) df"

text \<open>\<^verbatim>\<open>gen_circle(center, r, axis, npoints=100)\<close>, utils.py lines 165-201. The chain of
  \<^verbatim>\<open>if/elif\<close> has no \<^verbatim>\<open>else\<close>: for any other axis the names \<^verbatim>\<open>x\<close>, \<^verbatim>\<open>y\<close>, \<^verbatim>\<open>z\<close> are
  unbound when line 199 reads them, and Python raises \<^verbatim>\<open>UnboundLocalError\<close>.\<close>

definition gen_circle :: "real \<times> real \<times> real \<Rightarrow> real \<Rightarrow> string \<Rightarrow> nat \<Rightarrow> exn + points_df" where
  "gen_circle center r axis npoints =
     (let t = linspace 0 1 npoints;
          (c0, c1, c2) = center
      in if axis = ''x'' then
           from_dict (c0 # map (\<lambda>t. 1 * c0) t)
                     (c1 # map (\<lambda>t. r * cos (t * 2 * pi) + c1) t)
                     (c2 # map (\<lambda>t. r * sin (t * 2 * pi) + c2) t)
         else if axis = ''y'' then
           from_dict (c0 # map (\<lambda>t. r * cos (t * 2 * pi) + c0) t)
                     (c1 # map (\<lambda>t. 1 * c1) t)
                     (c2 # map (\<lambda>t. r * sin (t * 2 * pi) + c2) t)
         else if axis = ''z'' then
           from_dict (c0 # map (\<lambda>t. r * sin (t * 2 * pi) + c0) t)
                     (c1 # map (\<lambda>t. r * cos (t * 2 * pi) + c1) t)
                     (c2 # map (\<lambda>t. 1 * c2) t)
         else Inl UnboundLocalError)"

text \<open>The Euclidean distance of two points.\<close>

definition dist3 :: "real \<times> real \<times> real \<Rightarrow> real \<times> real \<times> real \<Rightarrow> real" where
  "dist3 p q =
     (case p of (px, py, pz) \<Rightarrow> case q of (qx, qy, qz) \<Rightarrow>
        sqrt ((px - qx)\<^sup>2 + (py - qy)\<^sup>2 + (pz - qz)\<^sup>2))"

text \<open>\<^verbatim>\<open>s[1:] - s[0]\<close> on a column: the slice is positional, \<^verbatim>\<open>s[0]\<close> looks the label 0 up
  and raises \<^verbatim>\<open>KeyError\<close> on an empty column.\<close>

definition sub_first :: "real list \<Rightarrow> exn + real list" where
  "sub_first s =
     (case s of [] \<Rightarrow> Inl (KeyError (MissingKey (Num 0)))
      | s0 # rest \<Rightarrow> Inr (map (\<lambda>v. v - s0) rest))"

text \<open>\<^verbatim>\<open>transform_points(points_df, inv_transformlist)\<close>, utils.py lines 203-229. The
  evaluator \<^verbatim>\<open>ants.apply_transforms_to_points\<close> is external: it is a parameter, and its
  failure propagates. \<^verbatim>\<open>np.stack\<close> of three columns is the list of the three rows of a
  \<open>3 \<times> n\<close> array.\<close>

definition transform_points ::
  "(points_df \<Rightarrow> 'tl \<Rightarrow> exn + points_df) \<Rightarrow> points_df \<Rightarrow> 'tl
     \<Rightarrow> exn + (real list list \<times> real list list)" where
  "transform_points apply_transforms_to_points points_df inv_transformlist =
     (case apply_transforms_to_points points_df inv_transformlist of Inl e \<Rightarrow> Inl e
      | Inr points_xfm \<Rightarrow>
     (case sub_first (col_x points_df) of Inl e \<Rightarrow> Inl e | Inr x0 \<Rightarrow>
     (case sub_first (col_y points_df) of Inl e \<Rightarrow> Inl e | Inr y0 \<Rightarrow>
     (case sub_first (col_z points_df) of Inl e \<Rightarrow> Inl e | Inr z0 \<Rightarrow>
     (case sub_first (col_x points_xfm) of Inl e \<Rightarrow> Inl e | Inr x1 \<Rightarrow>
     (case sub_first (col_y points_xfm) of Inl e \<Rightarrow> Inl e | Inr y1 \<Rightarrow>
     (case sub_first (col_z points_xfm) of Inl e \<Rightarrow> Inl e | Inr z1 \<Rightarrow>
        Inr ([x0, y0, z0], [x1, y1, z1]))))))))"

text \<open>Column \<open>i\<close> of a \<open>3 \<times> n\<close> array, and the difference of two points.\<close>

definition column3 :: "real list list \<Rightarrow> nat \<Rightarrow> real \<times> real \<times> real" where
  "column3 p i = (p ! 0 ! i, p ! 1 ! i, p ! 2 ! i)"

definition minus3 :: "real \<times> real \<times> real \<Rightarrow> real \<times> real \<times> real \<Rightarrow> real \<times> real \<times> real" where
  "minus3 p q =
     (case p of (px, py, pz) \<Rightarrow> case q of (qx, qy, qz) \<Rightarrow> (px - qx, py - qy, pz - qz))"

text \<open>\<^verbatim>\<open>get_ellipse(a, b, theta, x0, y0, n=100)\<close>, utils.py lines 265-286.\<close>

definition get_ellipse ::
  "real \<Rightarrow> real \<Rightarrow> real \<Rightarrow> real \<Rightarrow> real \<Rightarrow> nat \<Rightarrow> real list \<times> real list" where
  "get_ellipse a b theta x0 y0 n =
     (let t = map (\<lambda>u. u * pi * 2) (linspace 0 1 n);
          x_el = map (\<lambda>t. a * cos t * cos theta - b * sin theta * sin t + x0) t;
          y_el = map (\<lambda>t. a * sin theta * cos t + b * cos theta * sin t + y0) t
      in (x_el, y_el))"

text \<open>The \<open>3 \<times> n\<close> array of the displacements of rows \<open>1, 2, ...\<close> of a point set from
  its row 0.\<close>

definition displacements :: "points_df \<Rightarrow> real list list" where
  "displacements df =
     [map (\<lambda>q. fst q - fst (hd df)) (tl df),
      map (\<lambda>q. fst (snd q) - fst (snd (hd df))) (tl df),
      map (\<lambda>q. snd (snd q) - snd (snd (hd df))) (tl df)]"

subsection \<open>Conic fitting and ellipse parameters\<close>

text \<open>A finite float64 as the external routines return it: a real number, where \<open>Float64 0\<close>
  is the positive zero, or the negative zero.\<close>

datatype f64 = Float64 real | NegZero

fun f64_val :: "f64 \<Rightarrow> real" where
  "f64_val (Float64 x) = x"
| "f64_val NegZero = 0"

text \<open>The unary minus of a float changes the sign, of a zero too.\<close>

fun f64_uminus :: "f64 \<Rightarrow> f64" where
  "f64_uminus (Float64 x) = (if x = 0 then NegZero else Float64 (- x))"
| "f64_uminus NegZero = Float64 0"

text \<open>A float64 result with the IEEE special values: a finite number, an infinity or NaN.
  numpy's arithmetic returns them (with a warning) where Python's own floats would raise.\<close>

datatype fl = Fin real | PInf | NInf | NaN

text \<open>\<^verbatim>\<open>np.arctan2(y, x)\<close> in exact arithmetic, with IEEE's cases for the signs of zeros.\<close>

definition arctan2 :: "f64 \<Rightarrow> f64 \<Rightarrow> real" where
  "arctan2 y x =
     (if 0 < f64_val x then arctan (f64_val y / f64_val x)
      else if f64_val x < 0 then
        (if 0 < f64_val y \<or> y = Float64 0 then arctan (f64_val y / f64_val x) + pi
         else arctan (f64_val y / f64_val x) - pi)
      else if 0 < f64_val y then pi / 2
      else if f64_val y < 0 then - (pi / 2)
      else if x = NegZero then (if y = NegZero then - pi else pi)
      else 0)"

text \<open>The arithmetic of float64 on finite numbers: what each operation returns, rounding
  included. It is a parameter of the model, so that a property proved for every \<open>ops\<close> does
  not depend on how a result is rounded; \<open>exact_ops\<close> is the arithmetic of the real numbers.
  \<open>f_div\<close> is read for a divisor other than zero, \<open>f_sqrt\<close> for an argument that is not
  negative, \<open>f_sqr\<close> is \<^verbatim>\<open>x**2\<close>. An overflow to an infinity is not modelled.\<close>

record float_ops =
  f_add :: "real \<Rightarrow> real \<Rightarrow> real"
  f_sub :: "real \<Rightarrow> real \<Rightarrow> real"
  f_mul :: "real \<Rightarrow> real \<Rightarrow> real"
  f_div :: "real \<Rightarrow> real \<Rightarrow> real"
  f_sqr :: "real \<Rightarrow> real"
  f_sqrt :: "real \<Rightarrow> real"
  f_arctan2 :: "f64 \<Rightarrow> f64 \<Rightarrow> real"

definition exact_ops :: float_ops where
  "exact_ops = \<lparr>f_add = (+), f_sub = (-), f_mul = (*), f_div = (/),
                 f_sqr = (\<lambda>x. x\<^sup>2), f_sqrt = sqrt, f_arctan2 = arctan2\<rparr>"

text \<open>IEEE arithmetic on results that may be special values. A zero divisor is the positive
  zero: the difference \<open>B\<^sup>2 - 4AC\<close> of the source is \<open>+0\<close> whenever it vanishes, and so is a
  square.\<close>

fun fl_uminus :: "fl \<Rightarrow> fl" where
  "fl_uminus (Fin x) = Fin (- x)"
| "fl_uminus PInf = NInf"
| "fl_uminus NInf = PInf"
| "fl_uminus NaN = NaN"

fun fl_sqrt :: "float_ops \<Rightarrow> fl \<Rightarrow> fl" where
  "fl_sqrt ops (Fin x) = (if x < 0 then NaN else Fin (f_sqrt ops x))"
| "fl_sqrt ops PInf = PInf"
| "fl_sqrt ops NInf = NaN"
| "fl_sqrt ops NaN = NaN"

fun fl_sqr :: "float_ops \<Rightarrow> fl \<Rightarrow> fl" where
  "fl_sqr ops (Fin x) = Fin (f_sqr ops x)"
| "fl_sqr ops PInf = PInf"
| "fl_sqr ops NInf = PInf"
| "fl_sqr ops NaN = NaN"

fun fl_add :: "float_ops \<Rightarrow> fl \<Rightarrow> fl \<Rightarrow> fl" where
  "fl_add ops (Fin x) (Fin y) = Fin (f_add ops x y)"
| "fl_add ops (Fin x) PInf = PInf"
| "fl_add ops (Fin x) NInf = NInf"
| "fl_add ops PInf (Fin y) = PInf"
| "fl_add ops PInf PInf = PInf"
| "fl_add ops NInf (Fin y) = NInf"
| "fl_add ops NInf NInf = NInf"
| "fl_add ops _ _ = NaN"

fun fl_sub :: "float_ops \<Rightarrow> fl \<Rightarrow> fl \<Rightarrow> fl" where
  "fl_sub ops (Fin x) (Fin y) = Fin (f_sub ops x y)"
| "fl_sub ops (Fin x) PInf = NInf"
| "fl_sub ops (Fin x) NInf = PInf"
| "fl_sub ops PInf (Fin y) = PInf"
| "fl_sub ops PInf NInf = PInf"
| "fl_sub ops NInf (Fin y) = NInf"
| "fl_sub ops NInf PInf = NInf"
| "fl_sub ops _ _ = NaN"

fun fl_mul :: "float_ops \<Rightarrow> fl \<Rightarrow> fl \<Rightarrow> fl" where
  "fl_mul ops (Fin x) (Fin y) = Fin (f_mul ops x y)"
| "fl_mul ops (Fin x) PInf = (if 0 < x then PInf else if x < 0 then NInf else NaN)"
| "fl_mul ops (Fin x) NInf = (if 0 < x then NInf else if x < 0 then PInf else NaN)"
| "fl_mul ops PInf (Fin y) = (if 0 < y then PInf else if y < 0 then NInf else NaN)"
| "fl_mul ops NInf (Fin y) = (if 0 < y then NInf else if y < 0 then PInf else NaN)"
| "fl_mul ops PInf PInf = PInf"
| "fl_mul ops PInf NInf = NInf"
| "fl_mul ops NInf PInf = NInf"
| "fl_mul ops NInf NInf = PInf"
| "fl_mul ops _ _ = NaN"

fun fl_divide :: "float_ops \<Rightarrow> fl \<Rightarrow> fl \<Rightarrow> fl" where
  "fl_divide ops (Fin x) (Fin y) =
     (if y \<noteq> 0 then Fin (f_div ops x y)
      else if 0 < x then PInf else if x < 0 then NInf else NaN)"
| "fl_divide ops (Fin x) PInf = Fin 0"
| "fl_divide ops (Fin x) NInf = Fin 0"
| "fl_divide ops PInf (Fin y) = (if 0 \<le> y then PInf else NInf)"
| "fl_divide ops NInf (Fin y) = (if 0 \<le> y then NInf else PInf)"
| "fl_divide ops _ _ = NaN"

fun is_finite :: "fl \<Rightarrow> bool" where
  "is_finite (Fin x) = True"
| "is_finite _ = False"

text \<open>The design matrix of both fits, \<^verbatim>\<open>np.hstack((x*x, x*y, y*y, x, y, np.ones_like(x)))\<close>
  on column vectors: one row \<open>[x\<^sup>2, xy, y\<^sup>2, x, y, 1]\<close> for each point. For arrays of different
  lengths the product or the stacking raises \<^verbatim>\<open>ValueError\<close>.\<close>

definition design_matrix :: "real list \<Rightarrow> real list \<Rightarrow> exn + real list list" where
  "design_matrix x y =
     (if length x \<noteq> length y then Inl ValueError
      else Inr (map2 (\<lambda>x y. [x * x, x * y, y * y, x, y, 1]) x y))"

text \<open>What a fit returns: an array of float64, or of complex128 when \<^verbatim>\<open>np.linalg.eig\<close>
  finds a complex eigenvalue.\<close>

datatype fit = RealFit "f64 list" | ComplexFit "complex list"

text \<open>\<^verbatim>\<open>fit_ellipse_svd(x, y)\<close>, utils.py lines 137-163. \<^verbatim>\<open>np.linalg.svd\<close> (LAPACK) is
  external: it is the parameter \<open>np_svd\<close>, which returns \<open>(U, S, Vt)\<close> or raises. \<^verbatim>\<open>Vt[-1]\<close>
  is the last row of \<open>Vt\<close>.\<close>

definition fit_ellipse_svd ::
  "(real list list \<Rightarrow> exn + real list list \<times> real list \<times> f64 list list)
     \<Rightarrow> real list \<Rightarrow> real list \<Rightarrow> exn + fit" where
  "fit_ellipse_svd np_svd x y =
     (case design_matrix x y of Inl e \<Rightarrow> Inl e | Inr D \<Rightarrow>
     (case np_svd D of Inl e \<Rightarrow> Inl e | Inr (U, S, Vt) \<Rightarrow>
        if Vt = [] then Inl IndexError else Inr (RealFit (last Vt))))"

text \<open>\<^verbatim>\<open>np.dot(D.T, D)\<close> for a design matrix of six columns, the product of two matrices
  (\<^verbatim>\<open>ValueError\<close> when the shapes are not aligned), and the constraint matrix \<open>C\<close> of
  \<^verbatim>\<open>fit_ellipse_eig\<close>.\<close>

definition scatter :: "real list list \<Rightarrow> real list list" where
  "scatter D = map (\<lambda>i. map (\<lambda>j. sum_list (map (\<lambda>row. row ! i * row ! j) D)) [0..<6]) [0..<6]"

definition dot :: "real list list \<Rightarrow> real list list \<Rightarrow> exn + real list list" where
  "dot M N =
     (if list_ex (\<lambda>row. length row \<noteq> length N) M then Inl ValueError
      else Inr (map (\<lambda>row. map (\<lambda>j. sum_list (map2 (\<lambda>m n_row. m * n_row ! j) row N))
                               [0..<(case N of [] \<Rightarrow> 0 | n_row # _ \<Rightarrow> length n_row)]) M))"

definition constraint_matrix :: "real list list" where
  "constraint_matrix =
     [[0, 0, 2, 0, 0, 0],
      [0, -1, 0, 0, 0, 0],
      [2, 0, 0, 0, 0, 0],
      [0, 0, 0, 0, 0, 0],
      [0, 0, 0, 0, 0, 0],
      [0, 0, 0, 0, 0, 0]]"

text \<open>\<^verbatim>\<open>np.argmax\<close> of a list that is not empty: the first index of a largest entry.\<close>

fun argmax_from :: "real list \<Rightarrow> nat \<Rightarrow> nat \<Rightarrow> real \<Rightarrow> nat" where
  "argmax_from [] i best v = best"
| "argmax_from (e # es) i best v =
     (if v < e then argmax_from es (i + 1) i e else argmax_from es (i + 1) best v)"

definition argmax :: "real list \<Rightarrow> nat" where
  "argmax E = (case E of [] \<Rightarrow> 0 | e # es \<Rightarrow> argmax_from es 1 0 e)"

text \<open>What \<^verbatim>\<open>np.linalg.eig\<close> returns: the eigenvalues \<open>E\<close> and the matrix \<open>V\<close> whose columns
  are the eigenvectors, both real when every eigenvalue is real and both complex
  otherwise.\<close>

datatype eig_result =
  RealEig "real list" "f64 list list"
  | ComplexEig "complex list" "complex list list"

text \<open>\<^verbatim>\<open>fit_ellipse_eig(x, y)\<close>, utils.py lines 100-135. \<^verbatim>\<open>np.linalg.inv\<close> and
  \<^verbatim>\<open>np.linalg.eig\<close> are external: the parameters \<open>np_inv\<close> and \<open>np_eig\<close>, which return their
  result or raise. \<^verbatim>\<open>np.argmax\<close> raises \<^verbatim>\<open>ValueError\<close> on an empty array; \<^verbatim>\<open>V[:, n]\<close> is
  column \<open>n\<close> of \<open>V\<close>.\<close>

definition fit_ellipse_eig ::
  "(real list list \<Rightarrow> exn + real list list) \<Rightarrow> (real list list \<Rightarrow> exn + eig_result)
     \<Rightarrow> real list \<Rightarrow> real list \<Rightarrow> exn + fit" where
  "fit_ellipse_eig np_inv np_eig x y =
     (case design_matrix x y of Inl e \<Rightarrow> Inl e | Inr D \<Rightarrow>
     (case np_inv (scatter D) of Inl e \<Rightarrow> Inl e | Inr S_inv \<Rightarrow>
     (case dot S_inv constraint_matrix of Inl e \<Rightarrow> Inl e | Inr M \<Rightarrow>
     (case np_eig M of
        Inl e \<Rightarrow> Inl e
      | Inr (RealEig E V) \<Rightarrow>
          if E = [] then Inl ValueError
          else if list_ex (\<lambda>row. length row \<le> argmax (map abs E)) V then Inl IndexError
          else Inr (RealFit (map (\<lambda>row. row ! argmax (map abs E)) V))
      | Inr (ComplexEig E V) \<Rightarrow>
          if E = [] then Inl ValueError
          else if list_ex (\<lambda>row. length row \<le> argmax (map cmod E)) V then Inl IndexError
          else Inr (ComplexFit (map (\<lambda>row. row ! argmax (map cmod E)) V))))))"

text \<open>The dictionary \<^verbatim>\<open>get_ellipse_params\<close> returns.\<close>

record ellipse_params =
  param_ABCDEF :: fit
  param_a :: fl
  param_b :: fl
  param_x0 :: fl
  param_y0 :: fl
  param_theta :: real
  param_ecc :: fl

text \<open>\<open>B**2 - 4*A*C\<close> as lines 257-259 compute it.\<close>

definition discriminant :: "float_ops \<Rightarrow> real \<Rightarrow> real \<Rightarrow> real \<Rightarrow> real" where
  "discriminant ops A B C = f_sub ops (f_sqr ops B) (f_mul ops (f_mul ops 4 A) C)"

text \<open>The two radicands of line 257,
  \<^verbatim>\<open>2*(A*E**2 + C*D**2 - B*D*E + (B**2 - 4*A*C)*F)*((A+C) + np.array([1,-1])*np.sqrt((A-C)**2+B**2))\<close>,
  for the entries \<open>s = 1\<close> and \<open>s = -1\<close> of the array, operation by operation in Python's
  order.\<close>

definition radicand ::
  "float_ops \<Rightarrow> real \<Rightarrow> real \<Rightarrow> real \<Rightarrow> real \<Rightarrow> real \<Rightarrow> real \<Rightarrow> real \<Rightarrow> fl" where
  "radicand ops A B C D E F s =
     fl_mul ops
       (Fin (f_mul ops 2
          (f_add ops
             (f_sub ops
                (f_add ops (f_mul ops A (f_sqr ops E)) (f_mul ops C (f_sqr ops D)))
                (f_mul ops (f_mul ops B D) E))
             (f_mul ops (discriminant ops A B C) F))))
       (fl_add ops (Fin (f_add ops A C))
          (fl_mul ops (Fin s)
             (fl_sqrt ops (Fin (f_add ops (f_sqr ops (f_sub ops A C)) (f_sqr ops B))))))"

text \<open>The second argument \<open>C - A\<close> of line 260 with the sign of its zero: a difference that
  vanishes is \<open>+0\<close>, but for \<open>(-0) - (+0)\<close>.\<close>

definition f64_sub :: "float_ops \<Rightarrow> f64 \<Rightarrow> f64 \<Rightarrow> f64" where
  "f64_sub ops x y =
     (if f_sub ops (f64_val x) (f64_val y) = 0 \<and> x = NegZero \<and> y = Float64 0 then NegZero
      else Float64 (f_sub ops (f64_val x) (f64_val y)))"

text \<open>Lines 255-263 of \<^verbatim>\<open>get_ellipse_params\<close>. The fit is unpacked into six coefficients
  (\<^verbatim>\<open>ValueError\<close> for any other length) and the parameters are computed; no line tests
  the coefficients or raises. On a complex fit lines 257-259 compute complex values, and
  \<^verbatim>\<open>np.arctan2\<close> of line 260, which has no complex version, raises \<^verbatim>\<open>TypeError\<close>.\<close>

definition ellipse_params_of_fit :: "float_ops \<Rightarrow> fit \<Rightarrow> exn + ellipse_params" where
  "ellipse_params_of_fit ops fit =
     (case fit of
        ComplexFit v \<Rightarrow> if length v = 6 then Inl TypeError else Inl ValueError
      | RealFit [A', B', C', D', E', F'] \<Rightarrow>
          (let A = f64_val A'; B = f64_val B'; C = f64_val C';
               D = f64_val D'; E = f64_val E'; F = f64_val F';
               a = fl_divide ops (fl_uminus (fl_sqrt ops (radicand ops A B C D E F 1)))
                     (Fin (discriminant ops A B C));
               b = fl_divide ops (fl_uminus (fl_sqrt ops (radicand ops A B C D E F (- 1))))
                     (Fin (discriminant ops A B C));
               x0 = fl_divide ops
                     (Fin (f_sub ops (f_mul ops (f_mul ops 2 C) D) (f_mul ops B E)))
                     (Fin (discriminant ops A B C));
               y0 = fl_divide ops
                     (Fin (f_sub ops (f_mul ops (f_mul ops 2 A) E) (f_mul ops B D)))
                     (Fin (discriminant ops A B C));
               theta = f_mul ops 0.5 (f_arctan2 ops (f64_uminus B') (f64_sub ops C' A'));
               ecc = fl_sqrt ops (fl_sub ops (Fin 1) (fl_divide ops (fl_sqr ops b) (fl_sqr ops a)))
           in Inr \<lparr>param_ABCDEF = fit, param_a = a, param_b = b, param_x0 = x0, param_y0 = y0,
                    param_theta = theta, param_ecc = ecc\<rparr>)
      | RealFit _ \<Rightarrow> Inl ValueError)"

text \<open>\<^verbatim>\<open>get_ellipse_params(x, y, method='svd')\<close>, utils.py lines 231-263.\<close>

definition get_ellipse_params ::
  "float_ops
     \<Rightarrow> (real list list \<Rightarrow> exn + real list list \<times> real list \<times> f64 list list)
     \<Rightarrow> (real list list \<Rightarrow> exn + real list list) \<Rightarrow> (real list list \<Rightarrow> exn + eig_result)
     \<Rightarrow> real list \<Rightarrow> real list \<Rightarrow> string \<Rightarrow> exn + ellipse_params" where
  "get_ellipse_params ops np_svd np_inv np_eig x y method =
     (case (if method = ''svd'' then fit_ellipse_svd np_svd x y
            else fit_ellipse_eig np_inv np_eig x y) of
        Inl e \<Rightarrow> Inl e
      | Inr fit \<Rightarrow> ellipse_params_of_fit ops fit)"

text \<open>A result that is a negative finite number.\<close>

fun fl_negative :: "fl \<Rightarrow> bool" where
  "fl_negative (Fin x) = (x < 0)"
| "fl_negative _ = False"

text \<open>The contract of \<^verbatim>\<open>np.linalg.svd\<close>, as far as the source reads its result: the last
  row of \<open>Vt\<close> is a unit right-singular vector of the least singular value of \<open>D\<close>, that is, a
  unit vector \<open>v\<close> of six entries whose image \<open>D v\<close> is not longer than that of any other unit
  vector.\<close>

definition norm2 :: "real list \<Rightarrow> real" where
  "norm2 v = sum_list (map (\<lambda>c. c\<^sup>2) v)"

definition mat_vec :: "real list list \<Rightarrow> real list \<Rightarrow> real list" where
  "mat_vec M v = map (\<lambda>row. sum_list (map2 (*) row v)) M"

definition svd_contract ::
  "real list list \<Rightarrow> real list list \<times> real list \<times> f64 list list \<Rightarrow> bool" where
  "svd_contract D r =
     (case r of (U, S, Vt) \<Rightarrow>
        Vt \<noteq> [] \<and> length (last Vt) = 6 \<and> norm2 (map f64_val (last Vt)) = 1
        \<and> (\<forall>w. length w = 6 \<and> norm2 w = 1 \<longrightarrow>
              norm2 (mat_vec D (map f64_val (last Vt))) \<le> norm2 (mat_vec D w)))"

text \<open>The coefficients \<open>[A, B, C, D, E, F]\<close> of the conic \<open>A x\<^sup>2 + B x y + C y\<^sup>2 + D x + E y + F = 0\<close>
  on which \<^verbatim>\<open>get_ellipse(a, b, theta, x0, y0)\<close> samples its points: the ellipse of semi-axes
  \<open>a\<close>, \<open>b\<close>, rotated by \<open>theta\<close> about its centre \<open>(x0, y0)\<close>. It is the reference the fit is
  compared with; the source does not compute it.\<close>

definition ellipse_conic :: "real \<Rightarrow> real \<Rightarrow> real \<Rightarrow> real \<Rightarrow> real \<Rightarrow> real list" where
  "ellipse_conic a b theta x0 y0 =
     (let A = b\<^sup>2 * (cos theta)\<^sup>2 + a\<^sup>2 * (sin theta)\<^sup>2;
          B = 2 * (b\<^sup>2 - a\<^sup>2) * cos theta * sin theta;
          C = b\<^sup>2 * (sin theta)\<^sup>2 + a\<^sup>2 * (cos theta)\<^sup>2
      in [A, B, C, - 2 * A * x0 - B * y0, - B * x0 - 2 * C * y0,
          A * x0\<^sup>2 + B * x0 * y0 + C * y0\<^sup>2 - a\<^sup>2 * b\<^sup>2])"

subsection \<open>Calibration (calib.py)\<close>

text \<open>A calibration table (a pandas DataFrame): its columns in order, each with its name
  and its cells. The columns of one table have the same length.\<close>

type_synonym dataframe = "(string \<times> real list) list"

text \<open>\<^verbatim>\<open>df[:-1*tail]\<close>: all rows but the last \<open>tail\<close>; for \<open>tail = 0\<close> the slice is
  \<^verbatim>\<open>df[:0]\<close>, no row at all.\<close>

definition drop_tail :: "dataframe \<Rightarrow> nat \<Rightarrow> dataframe" where
  "drop_tail df tail =
     map (\<lambda>(name, cells). (name, if tail = 0 then [] else take (length cells - tail) cells)) df"

text \<open>The default \<^verbatim>\<open>sheets\<close> of \<^verbatim>\<open>read_calibration_sheet\<close>: sheet key, name, head, tail.\<close>

definition default_sheets :: "(string \<times> string \<times> nat \<times> nat) list" where
  "default_sheets =
     [(''ADC Solutions @ 1.5T'', ''ADC_15T'', 3, 2),
      (''ADC Solutions @ 3.0T'', ''ADC_3T'', 3, 2),
      (''NiCl Solutions @ 1.5T'', ''NiCl_15T'', 3, 2),
      (''NiCl Solutions @ 3.0T'', ''NiCl_3T'', 3, 2),
      (''MnCl Solutions @ 1.5T'', ''MnCl_15T'', 3, 2),
      (''MnCl Solutions @ 3.0T'', ''MnCl_3T'', 3, 2),
      (''CuSO4 Solutions @ 3.0T'', ''CuSO4_3T'', 3, 3),
      (''CMRI LC Values'', ''CMRI_LC'', 3, 0)]"

text \<open>The loop of \<^verbatim>\<open>read_calibration_sheet\<close>, calib.py lines 27-32, over the sheets that
  are left. \<^verbatim>\<open>pd.read_excel(fname, sheet_name, header)\<close> is external: it is the parameter
  \<open>read_excel\<close>, and its failure propagates.\<close>

fun read_sheets ::
  "(string \<Rightarrow> string \<Rightarrow> nat \<Rightarrow> exn + dataframe) \<Rightarrow> string
     \<Rightarrow> (string \<times> string \<times> nat \<times> nat) list \<Rightarrow> (string \<rightharpoonup> dataframe)
     \<Rightarrow> exn + (string \<rightharpoonup> dataframe)" where
  "read_sheets read_excel fname [] data = Inr data"
| "read_sheets read_excel fname ((sheet_key, name, head, tail) # sheets) data =
     (case read_excel fname sheet_key head of
        Inl e \<Rightarrow> Inl e
      | Inr df \<Rightarrow> read_sheets read_excel fname sheets (data(name \<mapsto> drop_tail df tail)))"

definition read_calibration_sheet ::
  "(string \<Rightarrow> string \<Rightarrow> nat \<Rightarrow> exn + dataframe) \<Rightarrow> string \<Rightarrow> exn + (string \<rightharpoonup> dataframe)" where
  "read_calibration_sheet read_excel fname = read_sheets read_excel fname default_sheets Map.empty"

text \<open>The class \<^verbatim>\<open>Calibration\<close>: the loaded tables and the fixed table \<^verbatim>\<open>__sheets\<close> from
  field strength and mechanism to a sheet name. A Python \<^verbatim>\<open>dict\<close> keeps its keys in the
  order of insertion, so the table is an association list.\<close>

record calibration =
  data :: "string \<rightharpoonup> dataframe"
  sheets :: "(pyval \<times> (pyval \<times> string) list) list"

definition Calibration_init ::
  "(string \<Rightarrow> string \<Rightarrow> nat \<Rightarrow> exn + dataframe) \<Rightarrow> string \<Rightarrow> exn + calibration" where
  "Calibration_init read_excel fname =
     (case read_calibration_sheet read_excel fname of
        Inl e \<Rightarrow> Inl e
      | Inr d \<Rightarrow> Inr \<lparr>data = d,
          sheets =
            [(Num 3, [(Str ''T1'', ''NiCl_3T''), (Str ''T2'', ''MnCl_3T''),
                      (Str ''ADC'', ''ADC_3T''), (Str ''CuSO4'', ''CuSO4_3T'')]),
             (Num 1.5, [(Str ''T1'', ''NiCl_15T''), (Str ''T2'', ''MnCl_15T''),
                        (Str ''ADC'', ''ADC_15T'')])]\<rparr>)"

text \<open>\<^verbatim>\<open>Calibration._get_vals(self, temp, mimics, column, B0=3)\<close>, calib.py lines 42-62.
  Either lookup of \<^verbatim>\<open>self.__sheets[B0][mimics]\<close> that fails is caught and raised again as a
  \<^verbatim>\<open>KeyError\<close> with the message; \<^verbatim>\<open>self.__sheets.keys()\<close> in it are the keys of the outer
  dictionary. \<^verbatim>\<open>self.data.get(sheet)\<close> is \<^verbatim>\<open>None\<close> for a missing table, and reading its
  attribute \<^verbatim>\<open>loc\<close> raises \<^verbatim>\<open>AttributeError\<close>; a missing column raises pandas'
  \<^verbatim>\<open>KeyError\<close>.\<close>

definition get_vals :: "calibration \<Rightarrow> real \<Rightarrow> pyval \<Rightarrow> string \<Rightarrow> pyval \<Rightarrow> exn + real list" where
  "get_vals self temp mimics column B0 =
     (case map_of (sheets self) B0 of
        None \<Rightarrow> Inl (KeyError (CannotFindSheet mimics B0 (map fst (sheets self))))
      | Some by_mimics \<Rightarrow>
     (case map_of by_mimics mimics of
        None \<Rightarrow> Inl (KeyError (CannotFindSheet mimics B0 (map fst (sheets self))))
      | Some sheet \<Rightarrow>
     (case data self sheet of
        None \<Rightarrow> Inl AttributeError
      | Some df \<Rightarrow>
     (case map_of df ''Temperature (C)'' of
        None \<Rightarrow> Inl (KeyError (MissingKey (Str ''Temperature (C)'')))
      | Some temps \<Rightarrow>
     (case map_of df (column @ '' (ms)'') of
        None \<Rightarrow> Inl (KeyError (MissingKey (Str (column @ '' (ms)''))))
      | Some vals \<Rightarrow> Inr (map snd (filter (\<lambda>(t, v). t = temp) (zip temps vals))))))))"

definition get_T1_vals :: "calibration \<Rightarrow> real \<Rightarrow> pyval \<Rightarrow> pyval \<Rightarrow> exn + real list" where
  "get_T1_vals self temp mimics B0 = get_vals self temp mimics ''T1'' B0"

definition get_T2_vals :: "calibration \<Rightarrow> real \<Rightarrow> pyval \<Rightarrow> pyval \<Rightarrow> exn + real list" where
  "get_T2_vals self temp mimics B0 = get_vals self temp mimics ''T2'' B0"

text \<open>The (field strength, mechanism) pairs of the table, and its mechanisms.\<close>

definition sheet_pairs :: "calibration \<Rightarrow> (pyval \<times> pyval) list" where
  "sheet_pairs self = concat (map (\<lambda>(B0, by_mimics). map (\<lambda>(m, name). (B0, m)) by_mimics) (sheets self))"

definition mechanisms :: "calibration \<Rightarrow> pyval list" where
  "mechanisms self = remdups (map snd (sheet_pairs self))"

section \<open>Properties\<close>

subsection \<open>numpy helpers\<close>

lemma length_arange: "length (arange lo hi) = nat (hi - lo)"
  by (simp add: arange_def)

lemma length_arange_half: "length (arange (- int n div 2) (int n div 2)) = n"
  by (simp add: length_arange)

lemma length_linspace: "length (linspace start stop num) = num"
  by (simp add: linspace_def)

lemma nth_linspace:
  "k < num \<Longrightarrow> linspace start stop num ! k = start + real k * ((stop - start) / real (num - 1))"
  by (auto simp add: linspace_def)

lemma linspace_unit_nth: "2 \<le> n \<Longrightarrow> k < n \<Longrightarrow> linspace 0 1 n ! k = real k / real (n - 1)"
  by (simp add: nth_linspace)

lemma linspace_unit_last: "2 \<le> n \<Longrightarrow> linspace 0 1 n ! (n - 1) = 1"
  by (simp add: nth_linspace)

lemma from_dict_Cons_map:
  "from_dict (a # map f t) (b # map g t) (c # map h t)
     = Inr ((a, b, c) # map (\<lambda>u. (f u, g u, h u)) t)"
  by (simp add: from_dict_def zip_map_map o_def) (induction t, simp_all)

lemma gen_circle_x:
  "gen_circle (c0, c1, c2) r ''x'' n =
     Inr ((c0, c1, c2) # map (\<lambda>t. (c0, r * cos (t * 2 * pi) + c1, r * sin (t * 2 * pi) + c2)) (linspace 0 1 n))"
  by (simp add: gen_circle_def Let_def from_dict_Cons_map)

lemma gen_circle_y:
  "gen_circle (c0, c1, c2) r ''y'' n =
     Inr ((c0, c1, c2) # map (\<lambda>t. (r * cos (t * 2 * pi) + c0, c1, r * sin (t * 2 * pi) + c2)) (linspace 0 1 n))"
  by (simp add: gen_circle_def Let_def from_dict_Cons_map)

lemma gen_circle_z:
  "gen_circle (c0, c1, c2) r ''z'' n =
     Inr ((c0, c1, c2) # map (\<lambda>t. (r * sin (t * 2 * pi) + c0, r * cos (t * 2 * pi) + c1, c2)) (linspace 0 1 n))"
  by (simp add: gen_circle_def Let_def from_dict_Cons_map)

lemma linspace_unit_2: "linspace 0 1 2 = [0, 1]"
  by (simp add: linspace_def numeral_2_eq_2)


subsection \<open>make\_circle\<close>

lemma mask_rows:
  "length xs = n \<Longrightarrow> length ys = m \<Longrightarrow>
   map2 (map2 (\<lambda>a b. if b then v else a)) (replicate m (replicate n z))
     (map (map P) (map2 (map2 f) (replicate m xs) (map (\<lambda>y. replicate n y) ys)))
   = map (\<lambda>y. map (\<lambda>x. if P (f x y) then v else z) xs) ys"
  by (simp add: zip_replicate1 zip_replicate2 o_def)

lemma mask_of_meshgrid:
  "mask_assign (zeros (m, n))
      (map_array2 P (map2_array2 f (fst (meshgrid xs ys)) (snd (meshgrid xs ys)))) v
   = (if (length ys, length xs) \<noteq> (m, n) then Inl IndexError
      else Inr (Array2 (m, n) (map (\<lambda>y. map (\<lambda>x. if P (f x y) then v else 0) xs) ys)))"
proof (cases "(length ys, length xs) = (m, n)")
  case True
  then have l: "length xs = n" "length ys = m" by simp_all
  show ?thesis
    unfolding meshgrid_def mask_assign_def zeros_def map_array2_def map2_array2_def
    by (simp only: array2.sel fst_conv snd_conv l mask_rows [OF l])
next
  case False
  then show ?thesis
    unfolding meshgrid_def mask_assign_def zeros_def map_array2_def map2_array2_def
    by simp
qed

lemma make_circle_shape:
  "make_circle (nx, ny) radius center =
     (if nx = ny
      then Inr (Array2 (nx, nx)
             (map (\<lambda>j. map (\<lambda>i. if sqrt ((real_of_int i + fst center)\<^sup>2 + (real_of_int j + snd center)\<^sup>2) < radius then 1 else 0)
                     (arange (- int nx div 2) (int nx div 2)))
                  (arange (- int nx div 2) (int nx div 2))))
      else Inl IndexError)"
proof -
  let ?xs = "map (\<lambda>i. real_of_int i + fst center) (arange (- int nx div 2) (int nx div 2))"
  let ?ys = "map (\<lambda>j. real_of_int j + snd center) (arange (- int ny div 2) (int ny div 2))"
  have lx: "length ?xs = nx" and ly: "length ?ys = ny"
    by (simp_all add: length_arange_half)
  have "make_circle (nx, ny) radius center =
      mask_assign (zeros (nx, ny))
        (map_array2 (\<lambda>d. d < radius)
           (map2_array2 (\<lambda>x y. sqrt (x\<^sup>2 + y\<^sup>2)) (fst (meshgrid ?xs ?ys)) (snd (meshgrid ?xs ?ys)))) 1"
    by (simp only: make_circle_def Let_def prod.case case_prod_beta fst_conv snd_conv)
  also have "\<dots> = (if (ny, nx) \<noteq> (nx, ny) then Inl IndexError
      else Inr (Array2 (nx, ny) (map (\<lambda>y. map (\<lambda>x. if sqrt (x\<^sup>2 + y\<^sup>2) < radius then 1 else 0) ?xs) ?ys)))"
    by (simp only: mask_of_meshgrid lx ly)
  finally show ?thesis
    by (auto simp: o_def)
qed


lemma count_ones_row:
  "filter (\<lambda>i. (if P i then (1::real) else 0) = 1) xs = filter P xs"
  by (rule filter_cong) auto

lemma count_ones_rows:
  "count_ones (Array2 shp (map (\<lambda>j. map (\<lambda>i. if P i j then 1 else 0) xs) ys))
     = length (filter (\<lambda>(j, i). P i j) (List.product ys xs))"
proof -
  have "length (filter (\<lambda>v. v = 1) (concat (map (\<lambda>j. map (\<lambda>i. if P i j then (1::real) else 0) xs) ys)))
      = length (filter (\<lambda>(j, i). P i j) (List.product ys xs))"
  proof (induction ys)
    case Nil
    show ?case by simp
  next
    case (Cons y ys)
    have "length (filter (\<lambda>(j, i). P i j) (map (Pair y) xs)) = length (filter (\<lambda>i. P i y) xs)"
      by (simp add: filter_map o_def)
    with Cons show ?case
      by (simp add: o_def count_ones_row)
  qed
  then show ?thesis
    by (simp add: count_ones_def)
qed

lemma set_arange: "set (arange lo hi) = {lo..hi - 1}"
  by (simp add: arange_def)

lemma distinct_arange: "distinct (arange lo hi)"
  by (simp add: arange_def)

lemma nth_arange: "int k < hi - lo \<Longrightarrow> arange lo hi ! k = lo + int k"
  by (simp add: arange_def)

lemma make_circle_count:
  assumes "make_circle (n, n) radius center = Inr m"
  shows "count_ones m =
    card {(i, j). i \<in> {- int n div 2..int n div 2 - 1} \<and> j \<in> {- int n div 2..int n div 2 - 1}
            \<and> sqrt ((real_of_int i + fst center)\<^sup>2 + (real_of_int j + snd center)\<^sup>2) < radius}"
proof -
  let ?is = "arange (- int n div 2) (int n div 2)"
  let ?P = "\<lambda>i j. sqrt ((real_of_int i + fst center)\<^sup>2 + (real_of_int j + snd center)\<^sup>2) < radius"
  have m: "m = Array2 (n, n) (map (\<lambda>j. map (\<lambda>i. if ?P i j then 1 else 0) ?is) ?is)"
    using assms by (simp add: make_circle_shape)
  have "count_ones m = length (filter (\<lambda>(j, i). ?P i j) (List.product ?is ?is))"
    unfolding m by (rule count_ones_rows)
  also have "\<dots> = card ({(j, i). ?P i j} \<inter> set (List.product ?is ?is))"
    by (rule distinct_length_filter) (simp add: distinct_product distinct_arange)
  also have "{(j, i). ?P i j} \<inter> set (List.product ?is ?is)
      = (\<lambda>(i, j). (j, i)) ` {(i, j). i \<in> set ?is \<and> j \<in> set ?is \<and> ?P i j}"
    by auto
  also have "card \<dots> = card {(i, j). i \<in> set ?is \<and> j \<in> set ?is \<and> ?P i j}"
    by (rule card_image) (auto simp: inj_on_def)
  finally show ?thesis
    by (simp only: set_arange)
qed

lemma make_circle_cell:
  assumes "make_circle (n, n) radius center = Inr m" and "i < n" and "j < n"
  shows "rows m ! j ! i =
    (if sqrt ((real_of_int (- int n div 2 + int i) + fst center)\<^sup>2
            + (real_of_int (- int n div 2 + int j) + snd center)\<^sup>2) < radius then 1 else 0)"
proof -
  let ?is = "arange (- int n div 2) (int n div 2)"
  have len: "length ?is = n" by (rule length_arange_half)
  have nth: "?is ! k = - int n div 2 + int k" if "k < n" for k
    using that by (intro nth_arange) linarith
  have m: "rows m = map (\<lambda>j. map (\<lambda>i. if sqrt ((real_of_int i + fst center)\<^sup>2 + (real_of_int j + snd center)\<^sup>2) < radius then 1 else 0) ?is) ?is"
    using assms(1) by (auto simp add: make_circle_shape)
  show ?thesis
    using assms(2,3) by (simp add: m len nth)
qed


text \<open>
  Claim C10. For every shape \<open>(nx, ny)\<close> with \<open>nx \<noteq> ny\<close>, \<open>make_circle\<close> fails with the
  shape-mismatch \<^verbatim>\<open>IndexError\<close> of the boolean-mask assignment: the distance array from
  \<^verbatim>\<open>meshgrid\<close> has shape \<open>(ny, nx)\<close>, the output array shape \<open>(nx, ny)\<close>. It returns a
  mask exactly for the square shapes.
\<close>

theorem make_circle_square_only:
  "(make_circle (nx, ny) radius center = Inl IndexError \<longleftrightarrow> nx \<noteq> ny)
   \<and> ((\<exists>m. make_circle (nx, ny) radius center = Inr m) \<longleftrightarrow> nx = ny)"
  by (simp add: make_circle_shape)

theorem make_circle_square_only_witness:
  "make_circle (2, 3) 1 (0, 0) = Inl IndexError \<and> (\<exists>m. make_circle (3, 3) 1 (0, 0) = Inr m)"
  using make_circle_square_only [of 2 3 1 "(0, 0)"] make_circle_square_only [of 3 3 1 "(0, 0)"]
  by simp

text \<open>
  Claim C5. For \<open>make_circle (64, 64) 10 (0, 0)\<close> the number of 1-valued cells of the
  returned mask is exactly the number of grid points \<open>(i, j)\<close>, \<open>-32 \<le> i, j \<le> 31\<close>, whose
  Euclidean distance from the centre is strictly less than 10. The test is strict: the
  grid point \<open>(10, 0)\<close> on the boundary (row 32, column 42) is 0, its neighbour \<open>(9, 0)\<close>
  is 1.
\<close>

theorem make_circle_mask_containment: "\<exists>m. make_circle (64, 64) 10 (0, 0) = Inr m \<and> shape m = (64, 64)
      \<and> count_ones m = card {(i, j). i \<in> {-32..31} \<and> j \<in> {-32..31}
            \<and> sqrt ((real_of_int i)\<^sup>2 + (real_of_int j)\<^sup>2) < 10}
      \<and> rows m ! 32 ! 41 = 1 \<and> rows m ! 32 ! 42 = 0"
proof -
  obtain m where m: "make_circle (64, 64) 10 (0, 0) = Inr m" and s: "shape m = (64, 64)"
    by (simp add: make_circle_shape)
  have c: "count_ones m = card {(i, j). i \<in> {-32..31} \<and> j \<in> {-32..31}
            \<and> sqrt ((real_of_int i)\<^sup>2 + (real_of_int j)\<^sup>2) < 10}"
    using make_circle_count [OF m] by simp
  have "rows m ! 32 ! 41 = 1"
    using make_circle_cell [OF m, of 41 32] by simp
  moreover have "rows m ! 32 ! 42 = 0"
    using make_circle_cell [OF m, of 42 32] by simp
  ultimately show ?thesis using m s c by blast
qed


subsection \<open>gen\_circle\<close>

lemma ring_radius: "sqrt ((r * cos u)\<^sup>2 + (r * sin u)\<^sup>2) = \<bar>r\<bar>"
proof -
  have "(r * cos u)\<^sup>2 + (r * sin u)\<^sup>2 = r\<^sup>2 * (cos u)\<^sup>2 + r\<^sup>2 * (sin u)\<^sup>2"
    by (simp add: power_mult_distrib)
  also have "\<dots> = r\<^sup>2 * ((cos u)\<^sup>2 + (sin u)\<^sup>2)"
    by (simp only: distrib_left)
  also have "\<dots> = r\<^sup>2"
    by simp
  finally show ?thesis by simp
qed

lemma ring_radius': "sqrt ((r * sin u)\<^sup>2 + (r * cos u)\<^sup>2) = \<bar>r\<bar>"
  using ring_radius [of r u] by (simp add: add.commute)

text \<open>
  Claim C4. For every axis in \<open>{x, y, z}\<close>, every centre, every radius \<open>r \<ge> 0\<close> and every
  \<open>npoints = N\<close>, \<open>gen_circle\<close> returns exactly \<open>N + 1\<close> points, point 0 is the centre, and
  every point at an index \<open>1..N\<close> lies at Euclidean distance \<open>r\<close> from the centre.
\<close>

theorem gen_circle_ring:
  assumes "axis \<in> {''x'', ''y'', ''z''}" and "0 \<le> r"
  shows "\<exists>df. gen_circle center r axis N = Inr df \<and> length df = N + 1 \<and> df ! 0 = center
           \<and> (\<forall>i. 1 \<le> i \<and> i \<le> N \<longrightarrow> dist3 (df ! i) center = r)"
proof -
  obtain c0 c1 c2 where c: "center = (c0, c1, c2)" by (cases center) auto
  from assms(1) consider "axis = ''x''" | "axis = ''y''" | "axis = ''z''" by auto
  then show ?thesis
  proof cases
    case 1
    show ?thesis unfolding 1 c gen_circle_x
      using assms(2) by (auto simp add: length_linspace dist3_def ring_radius)
  next
    case 2
    show ?thesis unfolding 2 c gen_circle_y
      using assms(2) by (auto simp add: length_linspace dist3_def ring_radius)
  next
    case 3
    show ?thesis unfolding 3 c gen_circle_z
      using assms(2) by (auto simp add: length_linspace dist3_def ring_radius')
  qed
qed

theorem gen_circle_ring_witness:
  "''y'' \<in> {''x'', ''y'', ''z''} \<and> (0::real) \<le> 2
   \<and> (\<exists>df. gen_circle (1, 2, 3) 2 ''y'' 4 = Inr df \<and> length df = 5 \<and> df ! 0 = (1, 2, 3)
          \<and> dist3 (df ! 1) (1, 2, 3) = 2 \<and> dist3 (df ! 4) (1, 2, 3) = 2)"
  using gen_circle_ring [of "''y''" 2 "(1, 2, 3)" 4] by auto

text \<open>
  Claim C7, amended. For every axis other than \<open>x\<close>, \<open>y\<close> and \<open>z\<close>, \<open>gen_circle\<close> fails and
  returns no point set; the exception is Python's \<^verbatim>\<open>UnboundLocalError\<close>, raised when the
  coordinate arrays that no branch assigned are read, and it is not one of the exceptions
  for an invalid argument.
\<close>

theorem gen_circle_unrecognized_axis:
  assumes "axis \<notin> {''x'', ''y'', ''z''}"
  shows "gen_circle center r axis npoints = Inl UnboundLocalError
         \<and> \<not> is_InvalidArgument UnboundLocalError"
  using assms by (simp add: gen_circle_def Let_def split: prod.splits)

theorem gen_circle_unrecognized_axis_witness:
  "''xy'' \<notin> {''x'', ''y'', ''z''} \<and> gen_circle (1, 2, 3) 2 ''xy'' 100 = Inl UnboundLocalError"
  using gen_circle_unrecognized_axis [of "''xy''" "(1, 2, 3)" 2 100] by simp

text \<open>As stated, with an error of the kind for invalid arguments, the claim fails at the
  axis \<open>w\<close>.\<close>

theorem gen_circle_axis_error_kind: "gen_circle (0, 0, 0) 1 ''w'' 4 = Inl UnboundLocalError \<and> \<not> is_InvalidArgument UnboundLocalError"
  by (simp add: gen_circle_def Let_def)


subsection \<open>Boundary samples\<close>

lemma cos_pi_two [simp]: "cos (pi * 2) = 1"
  using cos_two_pi by (simp add: mult.commute)

lemma sin_pi_two [simp]: "sin (pi * 2) = 0"
  using sin_two_pi by (simp add: mult.commute)

lemma get_ellipse_nth:
  assumes "k < n"
  shows "fst (get_ellipse a b theta x0 y0 n) ! k =
           a * cos (linspace 0 1 n ! k * pi * 2) * cos theta
           - b * sin theta * sin (linspace 0 1 n ! k * pi * 2) + x0"
    and "snd (get_ellipse a b theta x0 y0 n) ! k =
           a * sin theta * cos (linspace 0 1 n ! k * pi * 2)
           + b * cos theta * sin (linspace 0 1 n ! k * pi * 2) + y0"
  using assms by (simp_all add: get_ellipse_def Let_def length_linspace)

text \<open>
  Claim C6, amended. In both \<open>gen_circle\<close> (rows \<open>1..n\<close>) and \<open>get_ellipse\<close> the boundary
  samples are parameterized by \<open>t\<close> in the closed interval \<open>[0, 1]\<close>: for \<open>n \<ge> 2\<close> samples the
  \<open>k\<close>-th one (\<open>k = 0, ..., n - 1\<close>) is at the angle \<open>2 \<pi> k / (n - 1)\<close>, and the last one, at
  the angle \<open>2 \<pi>\<close>, repeats the first.
\<close>

theorem boundary_samples_closed_interval:
  assumes "2 \<le> n" and "k < n"
  shows "linspace 0 1 n ! k = real k / real (n - 1) \<and> linspace 0 1 n ! (n - 1) = 1
    \<and> fst (get_ellipse a b theta x0 y0 n) ! k =
         a * cos (real k / real (n - 1) * pi * 2) * cos theta
         - b * sin theta * sin (real k / real (n - 1) * pi * 2) + x0
    \<and> snd (get_ellipse a b theta x0 y0 n) ! k =
         a * sin theta * cos (real k / real (n - 1) * pi * 2)
         + b * cos theta * sin (real k / real (n - 1) * pi * 2) + y0
    \<and> fst (get_ellipse a b theta x0 y0 n) ! (n - 1) = fst (get_ellipse a b theta x0 y0 n) ! 0
    \<and> snd (get_ellipse a b theta x0 y0 n) ! (n - 1) = snd (get_ellipse a b theta x0 y0 n) ! 0
    \<and> (\<exists>df. gen_circle (c0, c1, c2) r ''x'' n = Inr df
          \<and> df ! (k + 1) = (c0, r * cos (real k / real (n - 1) * 2 * pi) + c1,
                                r * sin (real k / real (n - 1) * 2 * pi) + c2)
          \<and> df ! n = df ! 1)
    \<and> (\<exists>df. gen_circle (c0, c1, c2) r ''y'' n = Inr df
          \<and> df ! (k + 1) = (r * cos (real k / real (n - 1) * 2 * pi) + c0, c1,
                                r * sin (real k / real (n - 1) * 2 * pi) + c2)
          \<and> df ! n = df ! 1)
    \<and> (\<exists>df. gen_circle (c0, c1, c2) r ''z'' n = Inr df
          \<and> df ! (k + 1) = (r * sin (real k / real (n - 1) * 2 * pi) + c0,
                                r * cos (real k / real (n - 1) * 2 * pi) + c1, c2)
          \<and> df ! n = df ! 1)"
proof -
  have t: "linspace 0 1 n ! k = real k / real (n - 1)"
    using assms by (rule linspace_unit_nth)
  have t0: "linspace 0 1 n ! 0 = 0"
    using assms(1) by (simp add: nth_linspace)
  have t1: "linspace 0 1 n ! (n - 1) = 1"
    using assms(1) by (rule linspace_unit_last)
  have n1: "n - 1 < n" and n0: "0 < n" using assms(1) by simp_all
  have e: "fst (get_ellipse a b theta x0 y0 n) ! (n - 1) = fst (get_ellipse a b theta x0 y0 n) ! 0"
    "snd (get_ellipse a b theta x0 y0 n) ! (n - 1) = snd (get_ellipse a b theta x0 y0 n) ! 0"
    using get_ellipse_nth [OF n1, of a b theta x0 y0] get_ellipse_nth [OF n0, of a b theta x0 y0] t0 t1
    by simp_all
  have nth: "(p # map f (linspace 0 1 n)) ! (k + 1) = f (real k / real (n - 1))"
    "(p # map f (linspace 0 1 n)) ! n = (p # map f (linspace 0 1 n)) ! 1 \<longleftrightarrow> f 1 = f 0"
    for p and f :: "real \<Rightarrow> real \<times> real \<times> real"
  proof -
    show "(p # map f (linspace 0 1 n)) ! (k + 1) = f (real k / real (n - 1))"
      using assms(2) by (simp add: length_linspace t)
    have "(p # map f (linspace 0 1 n)) ! n = f (linspace 0 1 n ! (n - 1))"
      using assms(1) by (cases n) (simp_all add: length_linspace)
    moreover have "(p # map f (linspace 0 1 n)) ! 1 = f (linspace 0 1 n ! 0)"
      using n0 by (simp add: length_linspace)
    ultimately show "(p # map f (linspace 0 1 n)) ! n = (p # map f (linspace 0 1 n)) ! 1 \<longleftrightarrow> f 1 = f 0"
      using t0 t1 by simp
  qed
  have E: "fst (get_ellipse a b theta x0 y0 n) ! k =
         a * cos (real k / real (n - 1) * pi * 2) * cos theta
         - b * sin theta * sin (real k / real (n - 1) * pi * 2) + x0"
    "snd (get_ellipse a b theta x0 y0 n) ! k =
         a * sin theta * cos (real k / real (n - 1) * pi * 2)
         + b * cos theta * sin (real k / real (n - 1) * pi * 2) + y0"
    using get_ellipse_nth [OF assms(2), of a b theta x0 y0] unfolding t by simp_all
  have X: "\<exists>df. gen_circle (c0, c1, c2) r ''x'' n = Inr df
          \<and> df ! (k + 1) = (c0, r * cos (real k / real (n - 1) * 2 * pi) + c1,
                                r * sin (real k / real (n - 1) * 2 * pi) + c2)
          \<and> df ! n = df ! 1"
    unfolding gen_circle_x
    using nth [of "(c0, c1, c2)" "\<lambda>t. (c0, r * cos (t * 2 * pi) + c1, r * sin (t * 2 * pi) + c2)"]
    by simp
  have Y: "\<exists>df. gen_circle (c0, c1, c2) r ''y'' n = Inr df
          \<and> df ! (k + 1) = (r * cos (real k / real (n - 1) * 2 * pi) + c0, c1,
                                r * sin (real k / real (n - 1) * 2 * pi) + c2)
          \<and> df ! n = df ! 1"
    unfolding gen_circle_y
    using nth [of "(c0, c1, c2)" "\<lambda>t. (r * cos (t * 2 * pi) + c0, c1, r * sin (t * 2 * pi) + c2)"]
    by simp
  have Z: "\<exists>df. gen_circle (c0, c1, c2) r ''z'' n = Inr df
          \<and> df ! (k + 1) = (r * sin (real k / real (n - 1) * 2 * pi) + c0,
                                r * cos (real k / real (n - 1) * 2 * pi) + c1, c2)
          \<and> df ! n = df ! 1"
    unfolding gen_circle_z
    using nth [of "(c0, c1, c2)" "\<lambda>t. (r * sin (t * 2 * pi) + c0, r * cos (t * 2 * pi) + c1, c2)"]
    by simp
  from t t1 E e X Y Z show ?thesis
    by (intro conjI)
qed

theorem boundary_samples_closed_interval_witness:
  "(2::nat) \<le> 5 \<and> (2::nat) < 5 \<and> linspace 0 1 5 ! 2 = 1 / 2 \<and> linspace 0 1 5 ! 4 = 1
   \<and> fst (get_ellipse 5 3 0 1 (- 2) 5) ! 2 = - 4
   \<and> fst (get_ellipse 5 3 0 1 (- 2) 5) ! 4 = fst (get_ellipse 5 3 0 1 (- 2) 5) ! 0"
  using boundary_samples_closed_interval [where n = 5 and k = 2 and a = 5 and b = 3 and theta = 0
      and ?x0.0 = 1 and ?y0.0 = "- 2"]
  by simp

text \<open>As stated, with \<open>t\<close> in the half-open interval and the \<open>k\<close>-th of \<open>n\<close> samples at the
  angle \<open>2 \<pi> k / n\<close>, the claim fails for \<open>n = 2\<close>: the second sample is at the angle \<open>2 \<pi>\<close> and
  repeats the first one, where the angle \<open>\<pi>\<close> would give the opposite point.\<close>

theorem boundary_samples_endpoint_repeated:
  "get_ellipse 5 3 0 0 0 2 = ([5, 5], [0, 0])
   \<and> gen_circle (0, 0, 0) 1 ''x'' 2 = Inr [(0, 0, 0), (0, 1, 0), (0, 1, 0)]
   \<and> 5 * cos (2 * pi * (1 / 2)) = (-5::real)"
  by (simp add: get_ellipse_def gen_circle_x linspace_unit_2 Let_def)


subsection \<open>transform\_points\<close>

lemma sub_first_col:
  "sub_first (col_x (p # ps)) = Inr (map (\<lambda>q. fst q - fst p) ps)"
  "sub_first (col_y (p # ps)) = Inr (map (\<lambda>q. fst (snd q) - fst (snd p)) ps)"
  "sub_first (col_z (p # ps)) = Inr (map (\<lambda>q. snd (snd q) - snd (snd p)) ps)"
  by (simp_all add: sub_first_def col_x_def col_y_def col_z_def split_def)

lemma sub_first_col_Nil:
  "sub_first (col_x []) = Inl (KeyError (MissingKey (Num 0)))"
  by (simp add: sub_first_def col_x_def)

lemma transform_points_Cons:
  assumes "ev (p # ps) tlist = Inr (q # qs)"
  shows "transform_points ev (p # ps) tlist = Inr (displacements (p # ps), displacements (q # qs))"
  using assms by (simp add: transform_points_def sub_first_col displacements_def)

lemma column3_displacements:
  assumes "i + 1 < length df"
  shows "column3 (displacements df) i = minus3 (df ! (i + 1)) (df ! 0)"
proof -
  from assms obtain p ps where df: "df = p # ps" by (cases df) auto
  with assms have i: "i < length ps" by simp
  show ?thesis
    by (simp add: df column3_def displacements_def minus3_def i split_def)
qed

text \<open>
  Claim C9. For every point set with its centre first, when the evaluator returns a point
  set, \<open>transform_points\<close> returns two \<open>3 \<times> n\<close> arrays \<open>p0\<close> and \<open>p1\<close> whose columns are
  \<open>p0[i] = point[i+1] - point[0]\<close> and \<open>p1[i] = transformed_point[i+1] - transformed_point[0]\<close>;
  with the identity as evaluator the two arrays are the same.
\<close>

theorem transform_points_displacements:
  assumes "points_df \<noteq> []"
  shows "(\<forall>points_xfm. apply_transforms_to_points points_df inv_transformlist = Inr points_xfm
            \<and> points_xfm \<noteq> [] \<longrightarrow>
          (\<exists>p0 p1. transform_points apply_transforms_to_points points_df inv_transformlist = Inr (p0, p1)
             \<and> length p0 = 3 \<and> length p1 = 3
             \<and> (\<forall>i. i + 1 < length points_df \<longrightarrow>
                   column3 p0 i = minus3 (points_df ! (i + 1)) (points_df ! 0))
             \<and> (\<forall>i. i + 1 < length points_xfm \<longrightarrow>
                   column3 p1 i = minus3 (points_xfm ! (i + 1)) (points_xfm ! 0))))
       \<and> (\<exists>p. transform_points (\<lambda>df tlist. Inr df) points_df inv_transformlist = Inr (p, p))"
proof -
  from assms obtain p ps where df: "points_df = p # ps" by (cases points_df) auto
  have "\<exists>p0 p1. transform_points apply_transforms_to_points points_df inv_transformlist = Inr (p0, p1)
             \<and> length p0 = 3 \<and> length p1 = 3
             \<and> (\<forall>i. i + 1 < length points_df \<longrightarrow>
                   column3 p0 i = minus3 (points_df ! (i + 1)) (points_df ! 0))
             \<and> (\<forall>i. i + 1 < length points_xfm \<longrightarrow>
                   column3 p1 i = minus3 (points_xfm ! (i + 1)) (points_xfm ! 0))"
    if ev: "apply_transforms_to_points points_df inv_transformlist = Inr points_xfm"
      and ne: "points_xfm \<noteq> []" for points_xfm
  proof -
    from ne obtain q qs where xfm: "points_xfm = q # qs" by (cases points_xfm) auto
    have "transform_points apply_transforms_to_points points_df inv_transformlist
        = Inr (displacements points_df, displacements points_xfm)"
      using ev unfolding df xfm by (rule transform_points_Cons)
    moreover have "length (displacements points_df) = 3" "length (displacements points_xfm) = 3"
      by (simp_all add: displacements_def)
    ultimately show ?thesis
      using column3_displacements by blast
  qed
  moreover have "\<exists>p. transform_points (\<lambda>df tlist. Inr df) points_df inv_transformlist = Inr (p, p)"
    unfolding df by (simp add: transform_points_Cons)
  ultimately show ?thesis by blast
qed

theorem transform_points_displacements_witness:
  "[(0, 0, 0), (1, 2, 3), (0, 1, 0)] \<noteq> ([] :: points_df)
   \<and> transform_points (\<lambda>df tlist. Inr (map (\<lambda>(x, y, z). (x + 1, y + 1, z + 1)) df))
        [(0, 0, 0), (1, 2, 3), (0, 1, 0)] () = Inr ([[1, 0], [2, 1], [3, 0]], [[1, 0], [2, 1], [3, 0]])
   \<and> (\<exists>p. transform_points (\<lambda>df tlist. Inr df) [(0, 0, 0), (1, 2, 3), (0, 1, 0)] () = Inr (p, p))"
  using transform_points_displacements [of "[(0, 0, 0), (1, 2, 3), (0, 1, 0)]" "\<lambda>df tl. Inr (map (\<lambda>(x, y, z). (x + 1, y + 1, z + 1)) df)" "()"]
  by (simp add: transform_points_def sub_first_def col_x_def col_y_def col_z_def)


subsection \<open>get\_ellipse\_params\<close>

lemma fl_divide_zero: "\<not> is_finite (fl_divide ops u (Fin 0))"
  by (cases u) simp_all

lemma fl_sqrt_negative: "fl_negative u \<Longrightarrow> fl_sqrt ops u = NaN"
  by (cases u) simp_all

lemma fl_divide_NaN [simp]: "fl_divide ops NaN v = NaN" "fl_divide ops u NaN = NaN"
  by (cases v; simp) (cases u; simp)

lemma fl_sub_NaN [simp]: "fl_sub ops u NaN = NaN"
  by (cases u) simp_all

lemma norm2_nonneg: "0 \<le> norm2 v"
  by (induction v) (simp_all add: norm2_def)

lemma svd_contract_null:
  assumes "Vt \<noteq> []" and "length (last Vt) = 6" and "norm2 (map f64_val (last Vt)) = 1"
    and "norm2 (mat_vec D (map f64_val (last Vt))) = 0"
  shows "svd_contract D (U, S, Vt)"
  using assms by (simp add: svd_contract_def norm2_nonneg)

text \<open>
  Claim C3, amended. \<open>get_ellipse_params\<close> has no detection of a degenerate conic: once
  the fit has returned six float64 coefficients, the extraction returns the dictionary
  of parameters and raises nothing, whatever the rounding of the arithmetic. Where the
  denominator \<open>B\<^sup>2 - 4AC\<close> the code computes is zero, the axes \<open>a\<close>, \<open>b\<close> and the centre \<open>x0\<close>,
  \<open>y0\<close> are quotients by zero, each an infinity or NaN; where a radicand the code computes
  is negative, the axis computed from it is NaN, and so is \<open>ecc\<close>.
\<close>

theorem get_ellipse_params_no_degenerate_check:
  assumes "(if method = ''svd'' then fit_ellipse_svd np_svd x y
            else fit_ellipse_eig np_inv np_eig x y) = Inr (RealFit [A, B, C, D, E, F])"
  shows "\<exists>p. get_ellipse_params ops np_svd np_inv np_eig x y method = Inr p
       \<and> ellipse_params_of_fit ops (RealFit [A, B, C, D, E, F]) = Inr p
       \<and> (discriminant ops (f64_val A) (f64_val B) (f64_val C) = 0 \<longrightarrow>
            \<not> is_finite (param_a p) \<and> \<not> is_finite (param_b p)
            \<and> \<not> is_finite (param_x0 p) \<and> \<not> is_finite (param_y0 p))
       \<and> (fl_negative (radicand ops (f64_val A) (f64_val B) (f64_val C)
              (f64_val D) (f64_val E) (f64_val F) 1) \<longrightarrow>
            param_a p = NaN \<and> param_ecc p = NaN)
       \<and> (fl_negative (radicand ops (f64_val A) (f64_val B) (f64_val C)
              (f64_val D) (f64_val E) (f64_val F) (- 1)) \<longrightarrow>
            param_b p = NaN \<and> param_ecc p = NaN)"
proof -
  have "get_ellipse_params ops np_svd np_inv np_eig x y method
      = ellipse_params_of_fit ops (RealFit [A, B, C, D, E, F])"
    using assms by (simp add: get_ellipse_params_def)
  then show ?thesis
    by (simp add: ellipse_params_of_fit_def Let_def fl_divide_zero fl_sqrt_negative)
qed

text \<open>The witness: six points of the parabola \<open>y\<^sup>2 - x = 0\<close>, and a decomposition whose last
  right-singular vector is the unit coefficient vector of the parabola, which satisfies
  the contract because the design matrix maps it to zero.\<close>

theorem get_ellipse_params_no_degenerate_check_witness:
  "design_matrix [0, 1, 1, 4, 4, 9] [0, 1, - 1, 2, - 2, 3]
      = Inr [[0, 0, 0, 0, 0, 1], [1, 1, 1, 1, 1, 1], [1, - 1, 1, 1, - 1, 1],
             [16, 8, 4, 4, 2, 1], [16, - 8, 4, 4, - 2, 1], [81, 27, 9, 9, 3, 1]]
   \<and> svd_contract [[0, 0, 0, 0, 0, 1], [1, 1, 1, 1, 1, 1], [1, - 1, 1, 1, - 1, 1],
                 [16, 8, 4, 4, 2, 1], [16, - 8, 4, 4, - 2, 1], [81, 27, 9, 9, 3, 1]]
      ([], [], [[Float64 0, Float64 0, Float64 (1 / sqrt 2), Float64 (- (1 / sqrt 2)), Float64 0, Float64 0]])
   \<and> fit_ellipse_svd (\<lambda>D. Inr ([], [], [[Float64 0, Float64 0, Float64 (1 / sqrt 2), Float64 (- (1 / sqrt 2)), Float64 0, Float64 0]]))
        [0, 1, 1, 4, 4, 9] [0, 1, - 1, 2, - 2, 3]
      = Inr (RealFit [Float64 0, Float64 0, Float64 (1 / sqrt 2), Float64 (- (1 / sqrt 2)), Float64 0, Float64 0])
   \<and> discriminant exact_ops 0 0 (1 / sqrt 2) = 0
   \<and> (\<exists>p. get_ellipse_params exact_ops
            (\<lambda>D. Inr ([], [], [[Float64 0, Float64 0, Float64 (1 / sqrt 2), Float64 (- (1 / sqrt 2)), Float64 0, Float64 0]]))
            (\<lambda>S. Inl LinAlgError) (\<lambda>M. Inl LinAlgError)
            [0, 1, 1, 4, 4, 9] [0, 1, - 1, 2, - 2, 3] ''svd'' = Inr p
        \<and> \<not> is_finite (param_a p) \<and> \<not> is_finite (param_b p)
        \<and> \<not> is_finite (param_x0 p) \<and> \<not> is_finite (param_y0 p))"
proof -
  let ?v = "[Float64 0, Float64 0, Float64 (1 / sqrt 2), Float64 (- (1 / sqrt 2)), Float64 0, Float64 0]"
  let ?svd = "\<lambda>D :: real list list. Inr ([], [], [?v]) :: exn + real list list \<times> real list \<times> f64 list list"
  have c: "svd_contract [[0, 0, 0, 0, 0, 1], [1, 1, 1, 1, 1, 1], [1, - 1, 1, 1, - 1, 1],
                 [16, 8, 4, 4, 2, 1], [16, - 8, 4, 4, - 2, 1], [81, 27, 9, 9, 3, 1]] ([], [], [?v])"
    by (rule svd_contract_null) (simp_all add: norm2_def mat_vec_def power_divide)
  have f: "fit_ellipse_svd ?svd [0, 1, 1, 4, 4, 9] [0, 1, - 1, 2, - 2, 3] = Inr (RealFit ?v)"
    by (simp add: fit_ellipse_svd_def design_matrix_def)
  have d: "discriminant exact_ops 0 0 (1 / sqrt 2) = 0"
    by (simp add: discriminant_def exact_ops_def)
  have m: "design_matrix [0, 1, 1, 4, 4, 9] [0, 1, - 1, 2, - 2, 3]
      = Inr [[0, 0, 0, 0, 0, 1], [1, 1, 1, 1, 1, 1], [1, - 1, 1, 1, - 1, 1],
             [16, 8, 4, 4, 2, 1], [16, - 8, 4, 4, - 2, 1], [81, 27, 9, 9, 3, 1]]"
    by (simp add: design_matrix_def)
  show ?thesis
    using m c f d get_ellipse_params_no_degenerate_check [of "''svd''" ?svd
        "[0, 1, 1, 4, 4, 9]" "[0, 1, - 1, 2, - 2, 3]" "\<lambda>S. Inl LinAlgError" "\<lambda>M. Inl LinAlgError"
        "Float64 0" "Float64 0" "Float64 (1 / sqrt 2)" "Float64 (- (1 / sqrt 2))" "Float64 0" "Float64 0" exact_ops]
    by auto
qed

text \<open>As stated, with an error reported for \<open>B\<^sup>2 - 4AC = 0\<close> and a negative radicand clamped
  or reported, the claim fails. For the parabola \<open>y\<^sup>2 - x = 0\<close> the extraction returns
  infinities and NaN; for the hyperbola \<open>y\<^sup>2 - x\<^sup>2 - 1 = 0\<close>, whose first radicand is -16, it
  returns NaN for \<open>a\<close> and \<open>ecc\<close>. On these coefficients every float64 operation is exact.\<close>

theorem ellipse_params_degenerate_returned:
  "ellipse_params_of_fit exact_ops (RealFit [Float64 0, Float64 0, Float64 1, Float64 (- 1), Float64 0, Float64 0]) =
     Inr \<lparr>param_ABCDEF = RealFit [Float64 0, Float64 0, Float64 1, Float64 (- 1), Float64 0, Float64 0],
          param_a = NInf, param_b = NaN,
          param_x0 = NInf, param_y0 = NaN, param_theta = 0, param_ecc = NaN\<rparr>
   \<and> radicand exact_ops (- 1) 0 1 0 0 (- 1) 1 = Fin (- 16)
   \<and> ellipse_params_of_fit exact_ops (RealFit [Float64 (- 1), Float64 0, Float64 1, Float64 0, Float64 0, Float64 (- 1)]) =
     Inr \<lparr>param_ABCDEF = RealFit [Float64 (- 1), Float64 0, Float64 1, Float64 0, Float64 0, Float64 (- 1)],
          param_a = NaN, param_b = Fin (- 1),
          param_x0 = Fin 0, param_y0 = Fin 0, param_theta = 0, param_ecc = NaN\<rparr>"
  by (simp add: ellipse_params_of_fit_def Let_def radicand_def discriminant_def arctan2_def exact_ops_def f64_sub_def)

subsection \<open>Round trip of the SVD fit\<close>




lemma exact_ops_simps [simp]:
  "f_add exact_ops x y = x + y" "f_sub exact_ops x y = x - y" "f_mul exact_ops x y = x * y"
  "f_div exact_ops x y = x / y" "f_sqr exact_ops x = x\<^sup>2" "f_sqrt exact_ops x = sqrt x"
  "f_arctan2 exact_ops = arctan2"
  by (simp_all add: exact_ops_def)





lemma f64_val_uminus [simp]: "f64_val (f64_uminus x) = - f64_val x"
  by (cases x) simp_all

lemma f64_uminus_nonzero: "f64_val x \<noteq> 0 \<Longrightarrow> f64_uminus x \<noteq> Float64 0"
  by (cases x) simp_all

lemma f64_val_sub_exact [simp]: "f64_val (f64_sub exact_ops x y) = f64_val x - f64_val y"
  by (simp add: f64_sub_def)



lemma sqrt_square_pos: "0 \<le> z \<Longrightarrow> sqrt (z\<^sup>2) = z"
  by simp






lemma length_ellipse_conic [simp]: "length (ellipse_conic a b theta x0 y0) = 6"
  by (simp add: ellipse_conic_def Let_def)


lemma norm2_replicate_zero [simp]: "norm2 (replicate k 0) = 0"
  by (induction k) (simp_all add: norm2_def)




lemma get_ellipse_params_svd:
  assumes "design_matrix xs ys = Inr D" and "np_svd D = Inr (U, S, Vt)" and "Vt \<noteq> []"
  shows "get_ellipse_params ops np_svd np_inv np_eig xs ys ''svd''
           = ellipse_params_of_fit ops (RealFit (last Vt))"
  using assms by (simp add: get_ellipse_params_def fit_ellipse_svd_def)



















subsection \<open>Calibration lookup\<close>

lemma Calibration_init_sheets:
  assumes "Calibration_init read_excel fname = Inr self"
  shows "sheets self =
            [(Num 3, [(Str ''T1'', ''NiCl_3T''), (Str ''T2'', ''MnCl_3T''),
                      (Str ''ADC'', ''ADC_3T''), (Str ''CuSO4'', ''CuSO4_3T'')]),
             (Num 1.5, [(Str ''T1'', ''NiCl_15T''), (Str ''T2'', ''MnCl_15T''),
                        (Str ''ADC'', ''ADC_15T'')])]"
  using assms by (auto simp: Calibration_init_def split: sum.splits)

lemma read_sheets_total:
  assumes "\<And>sheet_key head. \<exists>df. read_excel fname sheet_key head = Inr df"
  shows "\<exists>d. read_sheets read_excel fname todo acc = Inr d"
proof (induction todo arbitrary: acc)
  case Nil
  show ?case by simp
next
  case (Cons s todo)
  obtain sheet_key name head tail where s: "s = (sheet_key, name, head, tail)"
    by (cases s) auto
  from assms obtain df where "read_excel fname sheet_key head = Inr df" by blast
  with Cons show ?case by (simp add: s)
qed

lemma Calibration_init_total:
  assumes "\<And>sheet_key head. \<exists>df. read_excel fname sheet_key head = Inr df"
  shows "\<exists>self. Calibration_init read_excel fname = Inr self"
proof -
  have "\<exists>d. read_sheets read_excel fname default_sheets Map.empty = Inr d"
    by (rule read_sheets_total) (rule assms)
  then show ?thesis
    by (auto simp: Calibration_init_def read_calibration_sheet_def)
qed

text \<open>The part of claim C8 that holds of the code: for every (mechanism, field strength)
  pair absent from the fixed sheet table, \<open>_get_vals\<close> (and so \<open>get_T1_vals\<close> and
  \<open>get_T2_vals\<close>) raises a \<^verbatim>\<open>KeyError\<close>, which is a \<^verbatim>\<open>LookupError\<close>.\<close>

lemma get_vals_absent_pair_raises:
  assumes "Calibration_init read_excel fname = Inr self"
    and "(B0, mimics) \<notin> set (sheet_pairs self)"
  shows "\<exists>msg. get_vals self temp mimics column B0 = Inl (KeyError msg)
           \<and> is_LookupError (KeyError msg)
           \<and> get_T1_vals self temp mimics B0 = Inl (KeyError msg)
           \<and> get_T2_vals self temp mimics B0 = Inl (KeyError msg)"
proof -
  note s = Calibration_init_sheets [OF assms(1)]
  have "get_vals self temp mimics col B0
           = Inl (KeyError (CannotFindSheet mimics B0 (map fst (sheets self))))" for col
    using assms(2) by (auto simp: get_vals_def s sheet_pairs_def split: option.splits)
  then show ?thesis
    by (simp add: get_T1_vals_def get_T2_vals_def)
qed

text \<open>
  Claim C8. The claim has the message of the error list the available mechanisms. The
  code's message announces the available sheets and then interpolates
  \<^verbatim>\<open>self.__sheets.keys()\<close>, the keys of the outer dictionary: for CuSO4 at 1.5 T, a pair
  absent from the table, the \<^verbatim>\<open>KeyError\<close> lists \<open>[3, 1.5]\<close>, the field strengths, and T1, a
  mechanism of the table, is not in the list.
\<close>

theorem get_vals_message_lists_field_strengths:
  "(case Calibration_init (\<lambda>fname sheet_key head. Inr [(''Temperature (C)'', [20, 22, 0, 0, 0]),
              (''T1 (ms)'', [100, 90, 0, 0, 0])]) ''calibration.xls'' of
      Inl e \<Rightarrow> False
    | Inr self \<Rightarrow>
        get_vals self 20 (Str ''CuSO4'') ''T1'' (Num 1.5)
          = Inl (KeyError (CannotFindSheet (Str ''CuSO4'') (Num 1.5) [Num 3, Num 1.5]))
        \<and> Str ''T1'' \<in> set (mechanisms self)
        \<and> Str ''T1'' \<notin> set [Num 3, Num 1.5])"
  by (simp add: Calibration_init_def read_calibration_sheet_def default_sheets_def
      get_vals_def mechanisms_def sheet_pairs_def)

end
